theory Spec2Isabelle
  imports Main "HOL-Library.Sublist"
begin

section \<open>Text\<close>

text \<open>
  Python \<open>str\<close> values are lists of \<open>char\<close>; a character outside ASCII stands as the
  bytes of its UTF-8 encoding. \<open>strip\<close> removes the ASCII white space that \<open>str.strip()\<close>
  removes and \<open>lower\<close> maps the ASCII capitals, which is all that the comparisons of
  \<open>checkVisa.py\<close> with \<open>''''\<close>, \<open>''n/a''\<close> and \<open>''-''\<close> can see.
\<close>

definition is_space :: "char \<Rightarrow> bool" where
  "is_space c = (c \<in> set [CHR '' '', CHR 0x09, CHR 0x0A, CHR 0x0B, CHR 0x0C, CHR 0x0D,
                          CHR 0x1C, CHR 0x1D, CHR 0x1E, CHR 0x1F])"

definition strip :: "string \<Rightarrow> string" where
  "strip s = rev (dropWhile is_space (rev (dropWhile is_space s)))"

definition lower_char :: "char \<Rightarrow> char" where
  "lower_char c =
     (case map_of (zip ''ABCDEFGHIJKLMNOPQRSTUVWXYZ'' ''abcdefghijklmnopqrstuvwxyz'') c of
        None \<Rightarrow> c
      | Some l \<Rightarrow> l)"

definition lower :: "string \<Rightarrow> string" where
  "lower s = map lower_char s"

text \<open>\<open>sub in s\<close> on strings: \<open>sub\<close> occurs in \<open>s\<close> as a contiguous run.\<close>

fun contains :: "string \<Rightarrow> string \<Rightarrow> bool" where
  "contains sub [] = (sub = [])"
| "contains sub (c # cs) = (prefix sub (c # cs) \<or> contains sub cs)"

section \<open>The parsed page\<close>

text \<open>
  The tree that \<open>BeautifulSoup(response.text, "html.parser")\<close> hands to the script: a
  \<open>NavigableString\<close> holds text, a \<open>Tag\<close> has a name, the values of its \<open>class\<close>
  attribute and its contents. Comments and other strings that \<open>get_text\<close> leaves out are
  not part of the tree.
\<close>

datatype node = NavigableString string | Tag string "string list" "node list"

fun is_tag :: "node \<Rightarrow> bool" where
  "is_tag (Tag n cs kids) = True"
| "is_tag (NavigableString s) = False"

fun named :: "string \<Rightarrow> node \<Rightarrow> bool" where
  "named t (Tag n cs kids) = (n = t)"
| "named t (NavigableString s) = False"

text \<open>\<open>get_text(strip=True)\<close>: every string below the node, stripped, the empty ones
  dropped, joined with nothing in between.\<close>

fun strings :: "node \<Rightarrow> string list" where
  "strings (NavigableString s) = (let t = strip s in if t = [] then [] else [t])"
| "strings (Tag n cs kids) = concat (map strings kids)"

definition get_text :: "node \<Rightarrow> string" where
  "get_text e = concat (strings e)"

text \<open>The descendants of a node in document order, the node itself excluded.\<close>

fun descendants :: "node \<Rightarrow> node list"
  and descendants_of :: "node list \<Rightarrow> node list" where
  "descendants (NavigableString s) = []"
| "descendants (Tag n cs kids) = descendants_of kids"
| "descendants_of [] = []"
| "descendants_of (k # ks) = k # descendants k @ descendants_of ks"

definition find_all :: "string \<Rightarrow> node \<Rightarrow> node list" where
  "find_all t e = filter (named t) (descendants e)"

text \<open>
  The CSS selectors of the script are compound selectors: an optional tag name, class
  names that must all be present, and an optional \<open>:last-child\<close>, which holds of a tag
  with no tag after it among its siblings.
\<close>

record selector =
  sel_name :: "string option"
  sel_classes :: "string list"
  sel_last_child :: bool

fun matches :: "selector \<Rightarrow> node \<Rightarrow> bool \<Rightarrow> bool" where
  "matches sel (NavigableString s) is_last = False"
| "matches sel (Tag n cs kids) is_last =
     ((case sel_name sel of None \<Rightarrow> True | Some t \<Rightarrow> t = n) \<and>
      list_all (\<lambda>c. c \<in> set cs) (sel_classes sel) \<and>
      (if sel_last_child sel then is_last else True))"

fun select :: "selector \<Rightarrow> node \<Rightarrow> node list"
  and select_kids :: "selector \<Rightarrow> node list \<Rightarrow> node list" where
  "select sel (NavigableString s) = []"
| "select sel (Tag n cs kids) = select_kids sel kids"
| "select_kids sel [] = []"
| "select_kids sel (k # ks) =
     (if matches sel k (is_tag k \<and> \<not> list_ex is_tag ks) then [k] else [])
       @ select sel k @ select_kids sel ks"

definition select_one :: "selector \<Rightarrow> node \<Rightarrow> node option" where
  "select_one sel e = (case select sel e of [] \<Rightarrow> None | x # xs \<Rightarrow> Some x)"

section \<open>Configuration\<close>

record config =
  BOT_TOKEN :: string
  CHAT_ID :: string
  CHECK_INTERVAL :: int
  COUNTRY :: string

section \<open>get_visa_status\<close>

definition span_label :: "string \<Rightarrow> selector" where
  "span_label c = \<lparr>sel_name = Some ''span'', sel_classes = [''label'', c], sel_last_child = False\<rparr>"

definition status_selectors :: "selector list" where
  "status_selectors =
     [span_label ''label-primary'',
      span_label ''label-success'',
      span_label ''label-warning'',
      span_label ''label-danger'',
      \<lparr>sel_name = Some ''span'', sel_classes = [''label''], sel_last_child = False\<rparr>,
      \<lparr>sel_name = None, sel_classes = [''status''], sel_last_child = False\<rparr>,
      \<lparr>sel_name = Some ''td'', sel_classes = [], sel_last_child = True\<rparr>]"

text \<open>The test of line 129: the text is non-empty and its lower-case form is none of
  \<open>''''\<close>, \<open>''n/a''\<close>, \<open>''-''\<close>.\<close>

definition usable :: "string \<Rightarrow> bool" where
  "usable current_status =
     (current_status \<noteq> [] \<and> lower current_status \<notin> set [[], ''n/a'', ''-''])"

text \<open>The loop over the selectors (lines 125 to 131); \<open>None\<close> when it ends with no
  \<open>return\<close>.\<close>

fun try_selectors :: "node \<Rightarrow> selector list \<Rightarrow> string option" where
  "try_selectors row [] = None"
| "try_selectors row (sel # sels) =
     (case select_one sel row of
        None \<Rightarrow> try_selectors row sels
      | Some status_element \<Rightarrow>
          (let current_status = get_text status_element
           in if usable current_status then Some current_status
              else try_selectors row sels))"

text \<open>Lines 134 to 139: the text of the last \<open>td\<close> below the row, when there is one and
  its text is non-empty.\<close>

definition last_cell :: "node \<Rightarrow> string option" where
  "last_cell row =
     (let cells = find_all ''td'' row
      in if cells \<noteq> [] then
           (let t = get_text (last cells) in if t \<noteq> [] then Some t else None)
         else None)"

text \<open>The body of the loop over the rows (lines 110 to 139): \<open>Some\<close> status when it
  returns, \<open>None\<close> when the loop goes on to the next row.\<close>

definition row_status :: "string \<Rightarrow> node \<Rightarrow> string option" where
  "row_status country row =
     (if contains country (get_text row) then
        (case try_selectors row status_selectors of
           Some s \<Rightarrow> Some s
         | None \<Rightarrow> last_cell row)
      else None)"

fun scan_rows :: "string \<Rightarrow> node list \<Rightarrow> string option" where
  "scan_rows country [] = None"
| "scan_rows country (row # rows) =
     (case row_status country row of
        Some s \<Rightarrow> Some s
      | None \<Rightarrow> scan_rows country rows)"

text \<open>What the request gives: a \<open>requests\<close> exception (connection error, timeout, the
  \<open>HTTPError\<close> of \<open>raise_for_status\<close>), any other exception while the page is read and
  parsed, or the parsed page.\<close>

datatype response = RequestFailed | ParseFailed | Page node

fun get_visa_status :: "config \<Rightarrow> response \<Rightarrow> string option" where
  "get_visa_status cfg (Page soup) = scan_rows (COUNTRY cfg) (find_all ''tr'' soup)"
| "get_visa_status cfg RequestFailed = None"
| "get_visa_status cfg ParseFailed = None"

section \<open>Exceptions\<close>

text \<open>The exceptions the script meets. \<open>except Exception\<close> catches every one of them but
  \<open>KeyboardInterrupt\<close>, which is no subclass of \<open>Exception\<close>.\<close>

datatype exn =
    OSError | JSONDecodeError | AttributeError | ValueError
  | UnicodeEncodeError | KeyboardInterrupt

definition is_Exception :: "exn \<Rightarrow> bool" where
  "is_Exception e = (e \<noteq> KeyboardInterrupt)"

section \<open>Reading the configuration (lines 14 to 19)\<close>

type_synonym environ = "string \<rightharpoonup> string"

definition environ_get :: "environ \<Rightarrow> string \<Rightarrow> string \<Rightarrow> string" where
  "environ_get env k d = (case env k of None \<Rightarrow> d | Some v \<Rightarrow> v)"

definition digit_of :: "char \<Rightarrow> nat option" where
  "digit_of c = map_of (zip ''0123456789'' [0, 1, 2, 3, 4, 5, 6, 7, 8, 9]) c"

text \<open>The digits of \<open>int(s)\<close>: at least one digit, a single underscore allowed between two
  digits. The flag says that the character before was a digit. Only the ASCII digits are
  read as digits; \<open>int\<close> also takes the decimal digits of other scripts.\<close>

fun digits_value :: "bool \<Rightarrow> nat \<Rightarrow> string \<Rightarrow> nat option" where
  "digits_value prev acc [] = (if prev then Some acc else None)"
| "digits_value prev acc (c # cs) =
     (if c = CHR ''_'' then
        (if prev \<and> cs \<noteq> [] then digits_value False acc cs else None)
      else
        (case digit_of c of
           None \<Rightarrow> None
         | Some d \<Rightarrow> digits_value True (10 * acc + d) cs))"

definition py_int :: "string \<Rightarrow> exn + int" where
  "py_int s =
     (let t = strip s;
          neg = (t \<noteq> [] \<and> hd t = CHR ''-'');
          body = (if t \<noteq> [] \<and> (hd t = CHR ''-'' \<or> hd t = CHR ''+'') then tl t else t)
      in case digits_value False 0 body of
           None \<Rightarrow> Inl ValueError
         | Some n \<Rightarrow> Inr (if neg then - int n else int n))"

definition load_config :: "environ \<Rightarrow> exn + config" where
  "load_config env =
     (case py_int (environ_get env ''CHECK_INTERVAL'' ''300'') of
        Inl e \<Rightarrow> Inl e
      | Inr n \<Rightarrow>
          Inr \<lparr>BOT_TOKEN = environ_get env ''TELEGRAM_BOT_TOKEN'' ''TU_BOT_TOKEN_AQUI'',
               CHAT_ID = environ_get env ''TELEGRAM_CHAT_ID'' ''TU_CHAT_ID_AQUI'',
               CHECK_INTERVAL = n,
               COUNTRY = environ_get env ''COUNTRY'' ''Spain''\<rparr>)"

section \<open>The state file\<close>

text \<open>
  A value read from the state file: \<open>None\<close> (JSON \<open>null\<close>, or a missing key), a string,
  or anything else (number, boolean, list, object), kept as its truth value and the
  text \<open>str()\<close> gives for it. \<open>json.load\<close> and \<open>json.dump\<close> belong to the library: the
  file is modelled by what \<open>json.load\<close> makes of it.
\<close>

datatype pyval = PNone | PStr string | POther bool string

datatype parsed = Dict "(string \<times> pyval) list" | NonDict

datatype file_state = Absent | Unreadable | Malformed | Json parsed

datatype log_entry = LogError string exn

definition dict_get :: "(string \<times> pyval) list \<Rightarrow> string \<Rightarrow> pyval" where
  "dict_get d k = (case map_of d k of None \<Rightarrow> PNone | Some v \<Rightarrow> v)"

text \<open>The \<open>try\<close> block of \<open>load_previous_state\<close> (lines 46 to 50).\<close>

definition load_body :: "file_state \<Rightarrow> exn + (pyval \<times> pyval)" where
  "load_body f =
     (case f of
        Absent \<Rightarrow> Inr (PNone, PNone)
      | Unreadable \<Rightarrow> Inl OSError
      | Malformed \<Rightarrow> Inl JSONDecodeError
      | Json NonDict \<Rightarrow> Inl AttributeError
      | Json (Dict data) \<Rightarrow> Inr (dict_get data ''status'', dict_get data ''last_check''))"

definition load_previous_state :: "file_state \<Rightarrow> (exn + (pyval \<times> pyval)) \<times> log_entry list" where
  "load_previous_state f =
     (case load_body f of
        Inr r \<Rightarrow> (Inr r, [])
      | Inl e \<Rightarrow>
          if is_Exception e
          then (Inr (PNone, PNone), [LogError ''Error cargando estado anterior: '' e])
          else (Inl e, []))"

definition state_record :: "config \<Rightarrow> string \<Rightarrow> string \<Rightarrow> (string \<times> pyval) list" where
  "state_record cfg status timestamp =
     [(''status'', PStr status),
      (''last_check'', PStr timestamp),
      (''country'', PStr (COUNTRY cfg))]"

text \<open>What writing does: it succeeds; \<open>open\<close> fails and the file stays as it was; or
  \<open>json.dump\<close> fails after \<open>open\<close> has truncated the file, which leaves a part of the
  text behind.\<close>

datatype write_outcome = WriteOk | OpenFails | DumpFails

definition save_state ::
  "config \<Rightarrow> string \<Rightarrow> string \<Rightarrow> write_outcome \<Rightarrow> file_state \<Rightarrow> file_state \<times> log_entry list" where
  "save_state cfg status timestamp w f =
     (case w of
        WriteOk \<Rightarrow> (Json (Dict (state_record cfg status timestamp)), [])
      | OpenFails \<Rightarrow> (f, [LogError ''Error guardando estado: '' OSError])
      | DumpFails \<Rightarrow> (Malformed, [LogError ''Error guardando estado: '' OSError]))"

section \<open>send_telegram_message\<close>

text \<open>What \<open>requests.post\<close> and \<open>raise_for_status\<close> do when they are reached: they
  succeed, they raise a \<open>RequestException\<close> (caught at line 90), or something else is
  raised, which line 90 does not catch.\<close>

datatype post_outcome = PostOk | PostFails | PostRaises

definition send_telegram_message :: "config \<Rightarrow> string \<Rightarrow> post_outcome \<Rightarrow> exn + bool" where
  "send_telegram_message cfg message p =
     (if BOT_TOKEN cfg = ''TU_BOT_TOKEN_AQUI'' \<or> CHAT_ID cfg = ''TU_CHAT_ID_AQUI'' then Inr False
      else (case p of
              PostOk \<Rightarrow> Inr True
            | PostFails \<Rightarrow> Inr False
            | PostRaises \<Rightarrow> Inl UnicodeEncodeError))"

section \<open>The messages\<close>

definition nl :: string where
  "nl = [CHR 0x0A]"

function str_nat :: "nat \<Rightarrow> string" where
  "str_nat n =
     (if n < 10 then [''0123456789'' ! n]
      else str_nat (n div 10) @ [''0123456789'' ! (n mod 10)])"
  by pat_completeness auto
termination
  by (relation "measure id") auto

definition str_int :: "int \<Rightarrow> string" where
  "str_int i = (if i < 0 then CHR ''-'' # str_nat (nat (- i)) else str_nat (nat i))"

definition py_str :: "pyval \<Rightarrow> string" where
  "py_str v = (case v of PNone \<Rightarrow> ''None'' | PStr s \<Rightarrow> s | POther b s \<Rightarrow> s)"

definition truthy :: "pyval \<Rightarrow> bool" where
  "truthy v = (case v of PNone \<Rightarrow> False | PStr s \<Rightarrow> s \<noteq> [] | POther b s \<Rightarrow> b)"

definition start_message :: "config \<Rightarrow> string \<Rightarrow> string" where
  "start_message cfg current_status =
     [CHR 0xF0, CHR 0x9F, CHR 0xA4, CHR 0x96] @ '' <b>Monitor iniciado</b>'' @ nl @ nl
     @ ''Pa'' @ [CHR 0xC3, CHR 0xAD] @ ''s: '' @ COUNTRY cfg @ nl
     @ ''Estado actual: <b>'' @ current_status @ ''</b>'' @ nl @ nl
     @ ''Monitoreando cambios cada '' @ str_int (CHECK_INTERVAL cfg div 60) @ '' minutos...''"

definition change_message :: "config \<Rightarrow> pyval \<Rightarrow> string \<Rightarrow> string \<Rightarrow> string" where
  "change_message cfg previous_status current_status timestamp =
     [CHR 0xF0, CHR 0x9F, CHR 0x94, CHR 0x84] @ '' <b>'' @ [CHR 0xC2, CHR 0xA1]
     @ ''Cambio detectado!</b>'' @ nl @ nl
     @ ''Pa'' @ [CHR 0xC3, CHR 0xAD] @ ''s: '' @ COUNTRY cfg @ nl
     @ ''Estado anterior: '' @ py_str previous_status @ nl
     @ ''Estado nuevo: <b>'' @ current_status @ ''</b>'' @ nl @ nl
     @ ''Fecha: '' @ timestamp"

definition critical_message :: "int \<Rightarrow> pyval \<Rightarrow> string" where
  "critical_message consecutive_errors previous_status =
     [CHR 0xF0, CHR 0x9F, CHR 0x9A, CHR 0xA8] @ '' <b>Error cr'' @ [CHR 0xC3, CHR 0xAD]
     @ ''tico</b>'' @ nl @ nl
     @ ''No se ha podido verificar el estado de las visas durante ''
     @ str_int consecutive_errors @ '' intentos consecutivos.'' @ nl @ nl
     @ [CHR 0xC3, CHR 0x9A] @ ''ltimo estado conocido: ''
     @ (if truthy previous_status then py_str previous_status else ''Desconocido'')"

section \<open>The monitor loop (lines 188 to 241)\<close>

text \<open>
  The variables of \<open>main\<close> that live across iterations, with the state file. The calls
  to \<open>logger\<close> change none of them and are left out.
\<close>

record monitor =
  previous_status :: pyval
  consecutive_errors :: int
  state_file :: file_state

text \<open>What one iteration meets: the clock, the answer to the request, what posting to
  the messaging API does if it is reached, what writing the state file does if it is
  reached, and whether the user interrupts the iteration (a \<open>KeyboardInterrupt\<close> inside
  the \<open>try\<close> block, taken at its start). The \<open>time.sleep\<close> of line 241 changes no
  variable; an interrupt during it ends the process and is outside the iterations
  described here.\<close>

record iter_env =
  env_now :: string
  env_page :: response
  env_post :: post_outcome
  env_write :: write_outcome
  env_interrupt :: bool

text \<open>The calls an iteration makes: \<open>send_telegram_message\<close> with its message and how
  the call ended, \<open>save_state\<close> with its two arguments.\<close>

datatype send_result = Returned bool | Raised exn

datatype event = Notify string send_result | Save string string

definition max_consecutive_errors :: int where
  "max_consecutive_errors = 5"

text \<open>The \<open>try\<close> block (lines 193 to 231): the exception that ended it, if any, the
  variables as they stand at that point and the calls made.\<close>

definition try_body :: "config \<Rightarrow> iter_env \<Rightarrow> monitor \<Rightarrow> exn option \<times> monitor \<times> event list" where
  "try_body cfg env m =
     (if env_interrupt env then (Some KeyboardInterrupt, m, [])
      else
        (let timestamp = env_now env in
         case get_visa_status cfg (env_page env) of
           None \<Rightarrow>
             (let m1 = m\<lparr>consecutive_errors := consecutive_errors m + 1\<rparr> in
              if max_consecutive_errors \<le> consecutive_errors m1 then
                (let error_msg = critical_message (consecutive_errors m1) (previous_status m1) in
                 case send_telegram_message cfg error_msg (env_post env) of
                   Inl e \<Rightarrow> (Some e, m1, [Notify error_msg (Raised e)])
                 | Inr b \<Rightarrow>
                     (None, m1\<lparr>consecutive_errors := 0\<rparr>, [Notify error_msg (Returned b)]))
              else (None, m1, []))
         | Some current_status \<Rightarrow>
             (let m1 = m\<lparr>consecutive_errors := 0\<rparr> in
              if PStr current_status \<noteq> previous_status m1 then
                (let message =
                   (if previous_status m1 = PNone then start_message cfg current_status
                    else change_message cfg (previous_status m1) current_status timestamp) in
                 case send_telegram_message cfg message (env_post env) of
                   Inl e \<Rightarrow> (Some e, m1, [Notify message (Raised e)])
                 | Inr b \<Rightarrow>
                     (None,
                      m1\<lparr>previous_status := PStr current_status,
                         state_file :=
                           fst (save_state cfg current_status timestamp (env_write env)
                                  (state_file m1))\<rparr>,
                      [Notify message (Returned b), Save current_status timestamp]))
              else
                (None,
                 m1\<lparr>state_file :=
                      fst (save_state cfg current_status timestamp (env_write env)
                             (state_file m1))\<rparr>,
                 [Save current_status timestamp]))))"

datatype flow = Continue | Break

text \<open>One turn of \<open>while True\<close>: the \<open>try\<close> block and its two handlers (lines 233 to
  238). Every exception of the model other than \<open>KeyboardInterrupt\<close> is an
  \<open>Exception\<close>.\<close>

definition iteration :: "config \<Rightarrow> iter_env \<Rightarrow> monitor \<Rightarrow> flow \<times> monitor \<times> event list" where
  "iteration cfg env m =
     (case try_body cfg env m of
        (None, m', evs) \<Rightarrow> (Continue, m', evs)
      | (Some e, m', evs) \<Rightarrow>
          if e = KeyboardInterrupt then (Break, m', evs)
          else (Continue, m'\<lparr>consecutive_errors := consecutive_errors m' + 1\<rparr>, evs))"

text \<open>The loop over the iterations that a list of environments describes: the
  variables after the last of them (or after the \<open>break\<close>) and all calls made.\<close>

fun run :: "config \<Rightarrow> iter_env list \<Rightarrow> monitor \<Rightarrow> monitor \<times> event list" where
  "run cfg [] m = (m, [])"
| "run cfg (env # envs) m =
     (case iteration cfg env m of
        (Break, m', evs) \<Rightarrow> (m', evs)
      | (Continue, m', evs) \<Rightarrow>
          (case run cfg envs m' of (m'', evs') \<Rightarrow> (m'', evs @ evs')))"

text \<open>\<open>main\<close>: the previous state is loaded (line 182), the counter starts at 0, the
  loop runs.\<close>

definition main :: "config \<Rightarrow> file_state \<Rightarrow> iter_env list \<Rightarrow> exn + (monitor \<times> event list)" where
  "main cfg f envs =
     (case fst (load_previous_state f) of
        Inl e \<Rightarrow> Inl e
      | Inr (status, last_check) \<Rightarrow>
          Inr (run cfg envs
                 \<lparr>previous_status = status, consecutive_errors = 0, state_file = f\<rparr>))"

text \<open>The messages passed to \<open>send_telegram_message\<close>, and the arguments of the calls of
  \<open>save_state\<close>, among the calls made.\<close>

fun notified :: "event list \<Rightarrow> string list" where
  "notified [] = []"
| "notified (Notify msg r # evs) = msg # notified evs"
| "notified (Save s t # evs) = notified evs"



section \<open>Sample pages, configurations and environments\<close>

definition td :: "string \<Rightarrow> node" where
  "td s = Tag ''td'' [] [NavigableString s]"

definition page_of :: "node list \<Rightarrow> node" where
  "page_of rows = Tag ''[document]'' [] [Tag ''table'' [] rows]"

definition plain_row :: "string \<Rightarrow> string \<Rightarrow> node" where
  "plain_row c s = Tag ''tr'' [] [td c, td s]"

text \<open>A row for Spain whose second cell is empty.\<close>

definition empty_row :: node where
  "empty_row = Tag ''tr'' [] [td ''Spain'', Tag ''td'' [] []]"

definition two_rows_page :: node where
  "two_rows_page = page_of [empty_row, plain_row ''Spain'' ''Open'']"

definition na_page :: node where
  "na_page = page_of [plain_row ''Spain'' ''N/A'']"

definition open_page :: node where
  "open_page = page_of [plain_row ''New Zealand'' ''Closed'', plain_row ''Spain'' ''Open'']"

definition sample_config :: config where
  "sample_config =
     \<lparr>BOT_TOKEN = ''123:abc'', CHAT_ID = ''42'', CHECK_INTERVAL = 300, COUNTRY = ''Spain''\<rparr>"

definition sample_env :: "response \<Rightarrow> post_outcome \<Rightarrow> iter_env" where
  "sample_env r p =
     \<lparr>env_now = ''2026-01-01 12:00:00'', env_page = r, env_post = p,
      env_write = WriteOk, env_interrupt = False\<rparr>"

definition sample_monitor :: "pyval \<Rightarrow> int \<Rightarrow> monitor" where
  "sample_monitor p n = \<lparr>previous_status = p, consecutive_errors = n, state_file = Absent\<rparr>"

section \<open>Facts about the extraction\<close>

lemmas page_defs = page_of_def plain_row_def td_def empty_row_def two_rows_page_def na_page_def
  open_page_def

lemmas fetch_defs = find_all_def row_status_def get_text_def strip_def is_space_def
  status_selectors_def span_label_def select_one_def usable_def lower_def lower_char_def
  last_cell_def









section \<open>Claims about get_visa_status\<close>







section \<open>Facts about the state file and the configuration\<close>

lemmas store_defs = load_previous_state_def load_body_def is_Exception_def save_state_def
  state_record_def dict_get_def

lemma load_after_save:
  "load_previous_state (fst (save_state cfg s t WriteOk f)) = (Inr (PStr s, PStr t), [])"
  by (simp add: store_defs)

lemma load_returns: "\<exists>r. fst (load_previous_state f) = Inr r"
proof (cases "load_body f")
  case (Inl e)
  have "e \<noteq> KeyboardInterrupt"
    using Inl by (auto simp: load_body_def split: file_state.splits parsed.splits)
  then show ?thesis using Inl by (simp add: load_previous_state_def is_Exception_def)
next
  case (Inr r)
  then show ?thesis by (simp add: load_previous_state_def)
qed

lemma py_int_300: "py_int ''300'' = Inr 300"
  by (simp add: py_int_def strip_def is_space_def digit_of_def)

lemma py_int_60: "py_int ''60'' = Inr 60"
  by (simp add: py_int_def strip_def is_space_def digit_of_def)

lemma load_config_fields:
  assumes "load_config env = Inr cfg"
  shows "BOT_TOKEN cfg =
           (case env ''TELEGRAM_BOT_TOKEN'' of None \<Rightarrow> ''TU_BOT_TOKEN_AQUI'' | Some v \<Rightarrow> v)"
    and "CHAT_ID cfg =
           (case env ''TELEGRAM_CHAT_ID'' of None \<Rightarrow> ''TU_CHAT_ID_AQUI'' | Some v \<Rightarrow> v)"
    and "COUNTRY cfg = (case env ''COUNTRY'' of None \<Rightarrow> ''Spain'' | Some v \<Rightarrow> v)"
    and "py_int (case env ''CHECK_INTERVAL'' of None \<Rightarrow> ''300'' | Some v \<Rightarrow> v) =
           Inr (CHECK_INTERVAL cfg)"
  using assms by (auto simp: load_config_def environ_get_def split: sum.splits)

lemma environ_get_other:
  "k \<noteq> k' \<Longrightarrow> environ_get (env(k' := x)) k d = environ_get env k d"
  by (simp add: environ_get_def)

lemma load_config_other_names:
  "load_config (env(''BOT_TOKEN'' := x, ''CHAT_ID'' := y)) = load_config env"
  by (simp add: load_config_def environ_get_other split: sum.splits)

lemma load_config_defaults:
  "load_config Map.empty =
     Inr \<lparr>BOT_TOKEN = ''TU_BOT_TOKEN_AQUI'', CHAT_ID = ''TU_CHAT_ID_AQUI'',
          CHECK_INTERVAL = 300, COUNTRY = ''Spain''\<rparr>"
  by (simp add: load_config_def environ_get_def py_int_300)

lemma send_unconfigured:
  "BOT_TOKEN cfg = ''TU_BOT_TOKEN_AQUI'' \<or> CHAT_ID cfg = ''TU_CHAT_ID_AQUI'' \<Longrightarrow>
     send_telegram_message cfg msg p = Inr False"
  by (auto simp: send_telegram_message_def)

section \<open>Claims about the state file and the configuration\<close>

text \<open>
  Claim C6. For every status \<open>s\<close> and timestamp \<open>t\<close>, whatever the file held before:
  after \<open>save_state\<close> has written its record, \<open>load_previous_state\<close> returns exactly
  \<open>(s, t)\<close>, and logs nothing.
\<close>

theorem save_load_round_trip:
  "load_previous_state (fst (save_state cfg s t WriteOk f)) = (Inr (PStr s, PStr t), [])"
  by (rule load_after_save)

text \<open>
  Claim C7. \<open>load_previous_state\<close> never raises: whatever the state file is, it returns a
  pair. For an absent file the pair is \<open>(None, None)\<close>, and there is no error to log; for
  a file that cannot be read, that holds no well-formed JSON, or whose JSON value is no
  object, the pair is \<open>(None, None)\<close> and the exception is logged as an error.
\<close>

theorem load_never_raises:
  "(\<exists>r. fst (load_previous_state f) = Inr r)
   \<and> load_previous_state Absent = (Inr (PNone, PNone), [])
   \<and> load_previous_state Unreadable =
       (Inr (PNone, PNone), [LogError ''Error cargando estado anterior: '' OSError])
   \<and> load_previous_state Malformed =
       (Inr (PNone, PNone), [LogError ''Error cargando estado anterior: '' JSONDecodeError])
   \<and> load_previous_state (Json NonDict) =
       (Inr (PNone, PNone), [LogError ''Error cargando estado anterior: '' AttributeError])"
  using load_returns [of f] by (simp add: store_defs)

text \<open>
  Claim C8, as the code has it. The configuration is a function of the environment at
  the start: the credentials are read from \<open>TELEGRAM_BOT_TOKEN\<close> and
  \<open>TELEGRAM_CHAT_ID\<close>, with the placeholders as defaults, under which
  \<open>send_telegram_message\<close> sends nothing and returns \<open>False\<close>; \<open>CHECK_INTERVAL\<close> is read
  as an integer with default 300 and \<open>COUNTRY\<close> with default Spain. Variables named
  \<open>BOT_TOKEN\<close> and \<open>CHAT_ID\<close> are not read.
\<close>

theorem load_config_reads_environment:
  "(load_config env = Inr cfg \<longrightarrow>
      BOT_TOKEN cfg =
        (case env ''TELEGRAM_BOT_TOKEN'' of None \<Rightarrow> ''TU_BOT_TOKEN_AQUI'' | Some v \<Rightarrow> v) \<and>
      CHAT_ID cfg =
        (case env ''TELEGRAM_CHAT_ID'' of None \<Rightarrow> ''TU_CHAT_ID_AQUI'' | Some v \<Rightarrow> v) \<and>
      COUNTRY cfg = (case env ''COUNTRY'' of None \<Rightarrow> ''Spain'' | Some v \<Rightarrow> v) \<and>
      py_int (case env ''CHECK_INTERVAL'' of None \<Rightarrow> ''300'' | Some v \<Rightarrow> v) =
        Inr (CHECK_INTERVAL cfg))
   \<and> load_config Map.empty =
       Inr \<lparr>BOT_TOKEN = ''TU_BOT_TOKEN_AQUI'', CHAT_ID = ''TU_CHAT_ID_AQUI'',
            CHECK_INTERVAL = 300, COUNTRY = ''Spain''\<rparr>
   \<and> load_config (env(''BOT_TOKEN'' := x, ''CHAT_ID'' := y)) = load_config env
   \<and> (BOT_TOKEN cfg' = ''TU_BOT_TOKEN_AQUI'' \<or> CHAT_ID cfg' = ''TU_CHAT_ID_AQUI'' \<longrightarrow>
        send_telegram_message cfg' msg p = Inr False)"
  using load_config_fields [of env cfg] load_config_defaults
    load_config_other_names [of env x y] send_unconfigured [of cfg' msg p]
  by blast

text \<open>Claim C8 at an environment that sets the two credentials and the interval.\<close>

theorem load_config_reads_environment_witness:
  "load_config [''TELEGRAM_BOT_TOKEN'' \<mapsto> ''123:abc'', ''TELEGRAM_CHAT_ID'' \<mapsto> ''42'',
                ''CHECK_INTERVAL'' \<mapsto> ''60''] =
     Inr \<lparr>BOT_TOKEN = ''123:abc'', CHAT_ID = ''42'', CHECK_INTERVAL = 60, COUNTRY = ''Spain''\<rparr>
   \<and> send_telegram_message
        \<lparr>BOT_TOKEN = ''TU_BOT_TOKEN_AQUI'', CHAT_ID = ''42'', CHECK_INTERVAL = 60,
         COUNTRY = ''Spain''\<rparr> ''hello'' PostOk = Inr False"
  using load_config_reads_environment
    [of "[''TELEGRAM_BOT_TOKEN'' \<mapsto> ''123:abc'', ''TELEGRAM_CHAT_ID'' \<mapsto> ''42'',
          ''CHECK_INTERVAL'' \<mapsto> ''60'']"
        "\<lparr>BOT_TOKEN = ''123:abc'', CHAT_ID = ''42'', CHECK_INTERVAL = 60, COUNTRY = ''Spain''\<rparr>"
        None None
        "\<lparr>BOT_TOKEN = ''TU_BOT_TOKEN_AQUI'', CHAT_ID = ''42'', CHECK_INTERVAL = 60,
          COUNTRY = ''Spain''\<rparr>" "''hello''" PostOk]
  by (simp add: load_config_def environ_get_def py_int_60)

text \<open>
  Claim C8 as it is stated fails: with the credentials given under the names
  \<open>BOT_TOKEN\<close> and \<open>CHAT_ID\<close>, the configuration holds the two placeholders, that is,
  the messaging is unconfigured.
\<close>

theorem credentials_names_counterexample:
  "load_config [''BOT_TOKEN'' \<mapsto> ''123:abc'', ''CHAT_ID'' \<mapsto> ''42''] =
     Inr \<lparr>BOT_TOKEN = ''TU_BOT_TOKEN_AQUI'', CHAT_ID = ''TU_CHAT_ID_AQUI'',
          CHECK_INTERVAL = 300, COUNTRY = ''Spain''\<rparr>"
  by (simp add: load_config_def environ_get_def py_int_300)

section \<open>Facts about the monitor loop\<close>

lemma send_raises: "send_telegram_message cfg msg p = Inl e \<Longrightarrow> e = UnicodeEncodeError"
  by (auto simp: send_telegram_message_def split: if_splits post_outcome.splits)



lemma iteration_interrupt: "env_interrupt env \<Longrightarrow> iteration cfg env m = (Break, m, [])"
  by (simp add: iteration_def try_body_def)

lemma iteration_failure_below:
  assumes "\<not> env_interrupt env" "get_visa_status cfg (env_page env) = None"
    and "consecutive_errors m + 1 < 5"
  shows "iteration cfg env m =
           (Continue, m\<lparr>consecutive_errors := consecutive_errors m + 1\<rparr>, [])"
  using assms by (simp add: iteration_def try_body_def max_consecutive_errors_def Let_def)

lemma iteration_failure_alert_returns:
  assumes "\<not> env_interrupt env" "get_visa_status cfg (env_page env) = None"
    and "5 \<le> consecutive_errors m + 1"
    and "send_telegram_message cfg
           (critical_message (consecutive_errors m + 1) (previous_status m)) (env_post env) = Inr b"
  shows "iteration cfg env m =
           (Continue, m\<lparr>consecutive_errors := 0\<rparr>,
            [Notify (critical_message (consecutive_errors m + 1) (previous_status m))
               (Returned b)])"
  using assms by (simp add: iteration_def try_body_def max_consecutive_errors_def Let_def)

lemma iteration_failure_alert_raises:
  assumes "\<not> env_interrupt env" "get_visa_status cfg (env_page env) = None"
    and "5 \<le> consecutive_errors m + 1"
    and "send_telegram_message cfg
           (critical_message (consecutive_errors m + 1) (previous_status m)) (env_post env) = Inl e"
  shows "iteration cfg env m =
           (Continue, m\<lparr>consecutive_errors := consecutive_errors m + 2\<rparr>,
            [Notify (critical_message (consecutive_errors m + 1) (previous_status m))
               (Raised e)])"
  using assms send_raises [OF assms(4)]
  by (simp add: iteration_def try_body_def max_consecutive_errors_def Let_def)

lemma iteration_success_same:
  assumes "\<not> env_interrupt env" "get_visa_status cfg (env_page env) = Some S"
    and "previous_status m = PStr S"
  shows "iteration cfg env m =
           (Continue,
            m\<lparr>consecutive_errors := 0,
              state_file := fst (save_state cfg S (env_now env) (env_write env) (state_file m))\<rparr>,
            [Save S (env_now env)])"
  using assms by (simp add: iteration_def try_body_def Let_def)

lemma iteration_success_changed_returns:
  assumes "\<not> env_interrupt env" "get_visa_status cfg (env_page env) = Some S"
    and "previous_status m \<noteq> PStr S"
    and "msg = (if previous_status m = PNone then start_message cfg S
                else change_message cfg (previous_status m) S (env_now env))"
    and "send_telegram_message cfg msg (env_post env) = Inr b"
  shows "iteration cfg env m =
           (Continue,
            m\<lparr>consecutive_errors := 0, previous_status := PStr S,
              state_file := fst (save_state cfg S (env_now env) (env_write env) (state_file m))\<rparr>,
            [Notify msg (Returned b), Save S (env_now env)])"
  using assms by (auto simp add: iteration_def try_body_def Let_def)

lemma iteration_success_changed_raises:
  assumes "\<not> env_interrupt env" "get_visa_status cfg (env_page env) = Some S"
    and "previous_status m \<noteq> PStr S"
    and "msg = (if previous_status m = PNone then start_message cfg S
                else change_message cfg (previous_status m) S (env_now env))"
    and "send_telegram_message cfg msg (env_post env) = Inl e"
  shows "iteration cfg env m =
           (Continue, m\<lparr>consecutive_errors := 1\<rparr>, [Notify msg (Raised e)])"
  using assms send_raises [OF assms(5)]
  by (auto simp add: iteration_def try_body_def Let_def)






lemma run_Cons_Continue:
  "iteration cfg env m = (Continue, m', evs) \<Longrightarrow>
     run cfg (env # envs) m = (fst (run cfg envs m'), evs @ snd (run cfg envs m'))"
  by (simp split: prod.splits)

lemma run_Cons_Break:
  "iteration cfg env m = (Break, m', evs) \<Longrightarrow> run cfg (env # envs) m = (m', evs)"
  by simp



lemma notified_append: "notified (xs @ ys) = notified xs @ notified ys"
  by (induction xs rule: notified.induct) simp_all



lemma messages_distinct:
  "start_message cfg S \<noteq> change_message cfg' P S' t"
  "start_message cfg S \<noteq> critical_message n P"
  "change_message cfg' P S' t \<noteq> critical_message n P'"
  by (simp_all add: start_message_def change_message_def critical_message_def)

lemma saved_written:
  "fst (save_state cfg s t WriteOk f) = Json (Dict (state_record cfg s t))"
  by (simp add: save_state_def)

lemma iteration_file:
  assumes "iteration cfg env m = (fl, m', evs)"
  shows "state_file m' = state_file m \<or> state_file m' = Malformed \<or>
         (\<exists>s t. state_file m' = Json (Dict (state_record cfg s t)))"
proof -
  have w: "\<And>s t f. fst (save_state cfg s t (env_write env) f) = f \<or>
             fst (save_state cfg s t (env_write env) f) = Malformed \<or>
             fst (save_state cfg s t (env_write env) f) = Json (Dict (state_record cfg s t))"
    by (simp add: save_state_def split: write_outcome.splits)
  show ?thesis
  proof (cases "env_interrupt env")
    case True
    then show ?thesis using assms by (simp add: iteration_interrupt)
  next
    case ni: False
    show ?thesis
    proof (cases "get_visa_status cfg (env_page env)")
      case None
      then show ?thesis using assms ni
        by (auto simp: iteration_def try_body_def Let_def split: if_splits sum.splits)
    next
      case (Some S)
      show ?thesis
      proof (cases "previous_status m = PStr S")
        case True
        have "state_file m' =
                fst (save_state cfg S (env_now env) (env_write env) (state_file m))"
          using assms iteration_success_same [OF ni Some True] by auto
        then show ?thesis using w [of S "env_now env" "state_file m"] by metis
      next
        case False
        define msg where "msg = (if previous_status m = PNone then start_message cfg S
                else change_message cfg (previous_status m) S (env_now env))"
        show ?thesis
        proof (cases "send_telegram_message cfg msg (env_post env)")
          case (Inl e)
          then show ?thesis
            using assms iteration_success_changed_raises [OF ni Some False msg_def Inl] by auto
        next
          case (Inr b)
          have "state_file m' =
                  fst (save_state cfg S (env_now env) (env_write env) (state_file m))"
            using assms iteration_success_changed_returns [OF ni Some False msg_def Inr]
            by auto
          then show ?thesis using w [of S "env_now env" "state_file m"] by metis
        qed
      qed
    qed
  qed
qed

lemma run_file:
  "state_file (fst (run cfg envs m)) = state_file m \<or>
   state_file (fst (run cfg envs m)) = Malformed \<or>
   (\<exists>s t. state_file (fst (run cfg envs m)) = Json (Dict (state_record cfg s t)))"
proof (induction envs arbitrary: m)
  case Nil
  then show ?case by simp
next
  case (Cons env envs)
  obtain fl m' evs where it: "iteration cfg env m = (fl, m', evs)"
    by (cases "iteration cfg env m") auto
  note step = iteration_file [OF it]
  show ?case
  proof (cases fl)
    case Continue
    then have "run cfg (env # envs) m = (fst (run cfg envs m'), evs @ snd (run cfg envs m'))"
      using it by (simp add: run_Cons_Continue del: run.simps)
    then have "fst (run cfg (env # envs) m) = fst (run cfg envs m')" by simp
    then show ?thesis using step Cons.IH [of m'] by metis
  next
    case Break
    then have "run cfg (env # envs) m = (m', evs)"
      using it by (simp add: run_Cons_Break del: run.simps)
    then have "fst (run cfg (env # envs) m) = m'" by simp
    then show ?thesis using step by metis
  qed
qed

lemma quiet_iteration:
  assumes "previous_status m = PStr S"
    and "get_visa_status cfg (env_page env) = None \<or> get_visa_status cfg (env_page env) = Some S"
    and "iteration cfg env m = (fl, m', evs)"
  shows "previous_status m' = PStr S \<and>
         (\<forall>x\<in>set (notified evs). \<exists>n. x = critical_message n (PStr S))"
proof (cases "env_interrupt env")
  case True
  then show ?thesis using assms by (simp add: iteration_interrupt)
next
  case ni: False
  show ?thesis
  proof (cases "get_visa_status cfg (env_page env)")
    case None
    then show ?thesis using assms(1,3) ni
      by (auto simp: iteration_def try_body_def Let_def split: if_splits sum.splits)
  next
    case (Some S')
    then have "S' = S" using assms(2) by simp
    then show ?thesis
      using assms(1,3) iteration_success_same [OF ni, of cfg S m] Some by auto
  qed
qed

lemma quiet_run:
  assumes "previous_status m = PStr S"
    and "list_all (\<lambda>e. get_visa_status cfg (env_page e) = None \<or>
                        get_visa_status cfg (env_page e) = Some S) envs"
  shows "previous_status (fst (run cfg envs m)) = PStr S \<and>
         (\<forall>x\<in>set (notified (snd (run cfg envs m))). \<exists>n. x = critical_message n (PStr S))"
  using assms
proof (induction envs arbitrary: m)
  case Nil
  then show ?case by simp
next
  case (Cons env envs)
  obtain fl m' evs where it: "iteration cfg env m = (fl, m', evs)"
    by (cases "iteration cfg env m") auto
  have step: "previous_status m' = PStr S \<and>
         (\<forall>x\<in>set (notified evs). \<exists>n. x = critical_message n (PStr S))"
    using quiet_iteration [OF Cons.prems(1) _ it] Cons.prems(2) by simp
  show ?case
  proof (cases fl)
    case Continue
    then have "run cfg (env # envs) m = (fst (run cfg envs m'), evs @ snd (run cfg envs m'))"
      using it by (simp add: run_Cons_Continue del: run.simps)
    moreover have "previous_status (fst (run cfg envs m')) = PStr S \<and>
         (\<forall>x\<in>set (notified (snd (run cfg envs m'))). \<exists>n. x = critical_message n (PStr S))"
      using Cons.IH [of m'] step Cons.prems(2) by simp
    ultimately show ?thesis using step by (auto simp: notified_append)
  next
    case Break
    then have "run cfg (env # envs) m = (m', evs)"
      using it by (simp add: run_Cons_Break del: run.simps)
    then show ?thesis using step by simp
  qed
qed

text \<open>The samples.\<close>

lemma fetch_open: "get_visa_status sample_config (Page open_page) = Some ''Open''"
  by (simp add: page_defs fetch_defs sample_config_def)

lemma sample_env_simps:
  "env_now (sample_env r p) = ''2026-01-01 12:00:00''" "env_page (sample_env r p) = r"
  "env_post (sample_env r p) = p" "env_write (sample_env r p) = WriteOk"
  "env_interrupt (sample_env r p) = False"
  by (simp_all add: sample_env_def)

lemma sample_monitor_simps:
  "previous_status (sample_monitor P n) = P" "consecutive_errors (sample_monitor P n) = n"
  "state_file (sample_monitor P n) = Absent"
  by (simp_all add: sample_monitor_def)

lemma sample_send:
  "send_telegram_message sample_config msg p =
     (case p of PostOk \<Rightarrow> Inr True | PostFails \<Rightarrow> Inr False | PostRaises \<Rightarrow> Inl UnicodeEncodeError)"
  by (simp add: send_telegram_message_def sample_config_def)


section \<open>Claims about the monitor loop\<close>





text \<open>
  Claim C4, as the code has it. When a failed fetch brings the counter to 5 or more,
  \<open>send_telegram_message\<close> is called once in that iteration, with the critical message,
  and the loop goes on. If the call returns, the counter is reset to 0. If the call
  raises an exception, the reset is not reached and the handler of line 236 adds one
  more, so that the counter ends at two more than it was. An exception that ends the
  \<open>try\<close> block increments the counter and nothing else: the threshold is not tested
  there, no message is sent and the counter is not reset.
\<close>

theorem critical_alert_on_threshold:
  assumes "\<not> env_interrupt env" and "get_visa_status cfg (env_page env) = None"
    and "5 \<le> consecutive_errors m + 1"
    and "msg = critical_message (consecutive_errors m + 1) (previous_status m)"
    and "iteration cfg env m = (fl, m', evs)"
  shows "fl = Continue
       \<and> notified evs = [msg]
       \<and> consecutive_errors m' =
           (case send_telegram_message cfg msg (env_post env) of
              Inr b \<Rightarrow> 0
            | Inl e \<Rightarrow> consecutive_errors m + 2)
       \<and> (try_body cfg env0 m0 = (Some e0, m1, evs1) \<and> e0 \<noteq> KeyboardInterrupt \<longrightarrow>
            iteration cfg env0 m0 =
              (Continue, m1\<lparr>consecutive_errors := consecutive_errors m1 + 1\<rparr>, evs1))"
proof (cases "send_telegram_message cfg msg (env_post env)")
  case (Inl e)
  then show ?thesis
    using assms(4,5) iteration_failure_alert_raises [OF assms(1-3), of e]
    by (auto simp: iteration_def)
next
  case (Inr b)
  then show ?thesis
    using assms(4,5) iteration_failure_alert_returns [OF assms(1-3), of b]
    by (auto simp: iteration_def)
qed

text \<open>Claim C4 at a failed request with the counter at 4, once with a call of
  \<open>send_telegram_message\<close> that returns and once with a call that raises.\<close>

theorem critical_alert_on_threshold_witness:
  "notified (snd (snd (iteration sample_config (sample_env RequestFailed PostOk)
       (sample_monitor (PStr ''Open'') 4)))) = [critical_message 5 (PStr ''Open'')]
   \<and> consecutive_errors (fst (snd (iteration sample_config (sample_env RequestFailed PostOk)
       (sample_monitor (PStr ''Open'') 4)))) = 0
   \<and> consecutive_errors (fst (snd (iteration sample_config (sample_env RequestFailed PostRaises)
       (sample_monitor (PStr ''Open'') 4)))) = 6"
  using
    critical_alert_on_threshold
      [where env = "sample_env RequestFailed PostOk" and cfg = sample_config
         and m = "sample_monitor (PStr ''Open'') 4"
         and msg = "critical_message 5 (PStr ''Open'')"
         and fl = "fst (iteration sample_config (sample_env RequestFailed PostOk)
                      (sample_monitor (PStr ''Open'') 4))"
         and m' = "fst (snd (iteration sample_config (sample_env RequestFailed PostOk)
                      (sample_monitor (PStr ''Open'') 4)))"
         and evs = "snd (snd (iteration sample_config (sample_env RequestFailed PostOk)
                      (sample_monitor (PStr ''Open'') 4)))"
         and ?env0.0 = "sample_env RequestFailed PostRaises"
         and ?m0.0 = "sample_monitor (PStr ''Open'') 4"
         and ?e0.0 = UnicodeEncodeError
         and ?m1.0 = "(sample_monitor (PStr ''Open'') 4)\<lparr>consecutive_errors := 5\<rparr>"
         and ?evs1.0 = "[Notify (critical_message 5 (PStr ''Open'')) (Raised UnicodeEncodeError)]"]
    critical_alert_on_threshold
      [where env = "sample_env RequestFailed PostRaises" and cfg = sample_config
         and m = "sample_monitor (PStr ''Open'') 4"
         and msg = "critical_message 5 (PStr ''Open'')"
         and fl = "fst (iteration sample_config (sample_env RequestFailed PostRaises)
                      (sample_monitor (PStr ''Open'') 4))"
         and m' = "fst (snd (iteration sample_config (sample_env RequestFailed PostRaises)
                      (sample_monitor (PStr ''Open'') 4)))"
         and evs = "snd (snd (iteration sample_config (sample_env RequestFailed PostRaises)
                      (sample_monitor (PStr ''Open'') 4)))"
         and ?env0.0 = "sample_env RequestFailed PostRaises"
         and ?m0.0 = "sample_monitor (PStr ''Open'') 4"
         and ?e0.0 = UnicodeEncodeError
         and ?m1.0 = "(sample_monitor (PStr ''Open'') 4)\<lparr>consecutive_errors := 5\<rparr>"
         and ?evs1.0 = "[Notify (critical_message 5 (PStr ''Open'')) (Raised UnicodeEncodeError)]"]
  by (simp add: sample_env_simps sample_monitor_simps sample_send)

text \<open>
  Claim C4 as it is stated fails: with five failed requests in a row from the start,
  the fifth brings the counter to the threshold; when \<open>send_telegram_message\<close> raises
  there, no message has been delivered and the counter is not reset to 0 but stands
  at 6 after that iteration.
\<close>

theorem alert_exception_counterexample:
  "main sample_config Absent
     [sample_env RequestFailed PostRaises, sample_env RequestFailed PostRaises,
      sample_env RequestFailed PostRaises, sample_env RequestFailed PostRaises,
      sample_env RequestFailed PostRaises] =
   Inr (\<lparr>previous_status = PNone, consecutive_errors = 6, state_file = Absent\<rparr>,
        [Notify (critical_message 5 PNone) (Raised UnicodeEncodeError)])"
  by (simp add: main_def store_defs run_Cons_Continue iteration_failure_below
      iteration_failure_alert_raises sample_env_simps sample_send
      del: run.simps(2))

text \<open>
  Claim C9. Take an iteration whose fetch succeeds with a status \<open>S\<close> other than the
  previous status and in which \<open>send_telegram_message\<close> returns \<open>False\<close> for the start
  or change message. The previous status in memory still becomes \<open>S\<close> and
  \<open>save_state\<close> is still called with \<open>S\<close>, so that the state file holds the record of
  \<open>S\<close> when the write succeeds. Through all later iterations in which the fetch fails
  or gives \<open>S\<close> again, the message is never passed to \<open>send_telegram_message\<close>
  again: the only messages sent are critical messages.
\<close>

theorem failed_notification_not_retried:
  assumes "\<not> env_interrupt env" and "get_visa_status cfg (env_page env) = Some S"
    and "previous_status m \<noteq> PStr S"
    and "msg = (if previous_status m = PNone then start_message cfg S
                else change_message cfg (previous_status m) S (env_now env))"
    and "send_telegram_message cfg msg (env_post env) = Inr False"
    and "iteration cfg env m = (fl, m', evs)"
  shows "fl = Continue
       \<and> evs = [Notify msg (Returned False), Save S (env_now env)]
       \<and> previous_status m' = PStr S
       \<and> state_file m' = fst (save_state cfg S (env_now env) (env_write env) (state_file m))
       \<and> (env_write env = WriteOk \<longrightarrow>
            state_file m' = Json (Dict (state_record cfg S (env_now env))))
       \<and> (list_all (\<lambda>e. get_visa_status cfg (env_page e) = None \<or>
                          get_visa_status cfg (env_page e) = Some S) later \<longrightarrow>
            previous_status (fst (run cfg later m')) = PStr S \<and>
            msg \<notin> set (notified (snd (run cfg later m'))) \<and>
            (\<forall>x\<in>set (notified (snd (run cfg later m'))). \<exists>n. x = critical_message n (PStr S)))"
proof -
  have it: "iteration cfg env m =
           (Continue,
            m\<lparr>consecutive_errors := 0, previous_status := PStr S,
              state_file := fst (save_state cfg S (env_now env) (env_write env) (state_file m))\<rparr>,
            [Notify msg (Returned False), Save S (env_now env)])"
    using assms(1-5) by (rule iteration_success_changed_returns)
  then have a: "fl = Continue" "evs = [Notify msg (Returned False), Save S (env_now env)]"
    "previous_status m' = PStr S"
    "state_file m' = fst (save_state cfg S (env_now env) (env_write env) (state_file m))"
    using assms(6) by auto
  have b: "env_write env = WriteOk \<longrightarrow>
            state_file m' = Json (Dict (state_record cfg S (env_now env)))"
    using a(4) by (simp add: saved_written)
  have c: "list_all (\<lambda>e. get_visa_status cfg (env_page e) = None \<or>
                          get_visa_status cfg (env_page e) = Some S) later \<longrightarrow>
            previous_status (fst (run cfg later m')) = PStr S \<and>
            msg \<notin> set (notified (snd (run cfg later m'))) \<and>
            (\<forall>x\<in>set (notified (snd (run cfg later m'))). \<exists>n. x = critical_message n (PStr S))"
  proof
    assume l: "list_all (\<lambda>e. get_visa_status cfg (env_page e) = None \<or>
                          get_visa_status cfg (env_page e) = Some S) later"
    note q = quiet_run [OF a(3) l]
    have "msg \<notin> set (notified (snd (run cfg later m')))"
    proof
      assume "msg \<in> set (notified (snd (run cfg later m')))"
      then obtain n where "msg = critical_message n (PStr S)" using q by blast
      then show False using assms(4) messages_distinct(2,3)
        by (metis (full_types))
    qed
    then show "previous_status (fst (run cfg later m')) = PStr S \<and>
            msg \<notin> set (notified (snd (run cfg later m'))) \<and>
            (\<forall>x\<in>set (notified (snd (run cfg later m'))). \<exists>n. x = critical_message n (PStr S))"
      using q by simp
  qed
  show ?thesis using a b c by simp
qed

text \<open>Claim C9 at a first fetch of the sample page with a failing post, followed by a
  fetch of the same page and a failed request.\<close>

theorem failed_notification_not_retried_witness:
  "previous_status (fst (snd (iteration sample_config (sample_env (Page open_page) PostFails)
       (sample_monitor PNone 0)))) = PStr ''Open''
   \<and> snd (snd (iteration sample_config (sample_env (Page open_page) PostFails)
       (sample_monitor PNone 0))) =
       [Notify (start_message sample_config ''Open'') (Returned False),
        Save ''Open'' ''2026-01-01 12:00:00'']
   \<and> start_message sample_config ''Open'' \<notin>
       set (notified (snd (run sample_config
         [sample_env (Page open_page) PostOk, sample_env RequestFailed PostOk]
         (fst (snd (iteration sample_config (sample_env (Page open_page) PostFails)
            (sample_monitor PNone 0)))))))"
  using
    failed_notification_not_retried
      [where env = "sample_env (Page open_page) PostFails" and cfg = sample_config
         and S = "''Open''" and m = "sample_monitor PNone 0"
         and msg = "start_message sample_config ''Open''"
         and fl = "fst (iteration sample_config (sample_env (Page open_page) PostFails)
                      (sample_monitor PNone 0))"
         and m' = "fst (snd (iteration sample_config (sample_env (Page open_page) PostFails)
                      (sample_monitor PNone 0)))"
         and evs = "snd (snd (iteration sample_config (sample_env (Page open_page) PostFails)
                      (sample_monitor PNone 0)))"
         and later = "[sample_env (Page open_page) PostOk, sample_env RequestFailed PostOk]"]
  by (simp add: fetch_open sample_env_simps sample_monitor_simps sample_send
      del: get_visa_status.simps(1) run.simps)

text \<open>
  Claim C10. The record that \<open>save_state\<close> writes has exactly the keys \<open>status\<close>,
  \<open>last_check\<close> and \<open>country\<close>, with the status and the timestamp passed by the caller
  and the country of the configuration; \<open>status\<close> and \<open>last_check\<close> are both strings,
  so both are present. A call of \<open>save_state\<close> leaves the file as it was, or leaves no
  well-formed JSON, or leaves such a record; and so the state file after any number
  of iterations is the file from before, or no well-formed JSON, or such a record.
\<close>

theorem saved_record_complete:
  "fst (save_state cfg s t WriteOk f) = Json (Dict (state_record cfg s t))
   \<and> map fst (state_record cfg s t) = [''status'', ''last_check'', ''country'']
   \<and> dict_get (state_record cfg s t) ''status'' = PStr s
   \<and> dict_get (state_record cfg s t) ''last_check'' = PStr t
   \<and> dict_get (state_record cfg s t) ''country'' = PStr (COUNTRY cfg)
   \<and> (fst (save_state cfg s t w f) = f \<or> fst (save_state cfg s t w f) = Malformed \<or>
       fst (save_state cfg s t w f) = Json (Dict (state_record cfg s t)))
   \<and> (state_file (fst (run cfg envs m)) = state_file m \<or>
       state_file (fst (run cfg envs m)) = Malformed \<or>
       (\<exists>s' t'. state_file (fst (run cfg envs m)) = Json (Dict (state_record cfg s' t'))))"
  using run_file [of cfg envs m]
  by (simp add: save_state_def state_record_def dict_get_def split: write_outcome.splits)

text \<open>Claim C10 at one iteration on the sample page.\<close>

theorem saved_record_complete_witness:
  "state_file (fst (run sample_config [sample_env (Page open_page) PostOk]
      (sample_monitor PNone 0))) =
     Json (Dict [(''status'', PStr ''Open''), (''last_check'', PStr ''2026-01-01 12:00:00''),
                 (''country'', PStr ''Spain'')])
   \<and> dict_get (state_record sample_config ''Open'' ''2026-01-01 12:00:00'') ''last_check'' =
       PStr ''2026-01-01 12:00:00''"
proof -
  have "iteration sample_config (sample_env (Page open_page) PostOk) (sample_monitor PNone 0) =
      (Continue,
       (sample_monitor PNone 0)
         \<lparr>consecutive_errors := 0, previous_status := PStr ''Open'',
          state_file := fst (save_state sample_config ''Open'' ''2026-01-01 12:00:00'' WriteOk Absent)\<rparr>,
       [Notify (start_message sample_config ''Open'') (Returned True),
        Save ''Open'' ''2026-01-01 12:00:00''])"
    using iteration_success_changed_returns
      [of "sample_env (Page open_page) PostOk" sample_config "''Open''" "sample_monitor PNone 0"
          "start_message sample_config ''Open''" True]
    by (simp add: fetch_open sample_env_simps sample_monitor_simps sample_send
        del: get_visa_status.simps)
  then show ?thesis
    using saved_record_complete
      [of sample_config "''Open''" "''2026-01-01 12:00:00''" Absent WriteOk
          "[sample_env (Page open_page) PostOk]" "sample_monitor PNone 0"]
    by (simp add: run_Cons_Continue state_record_def sample_config_def del: run.simps(2))
qed

text \<open>Claim C6 at the sample status and timestamp, written over a file that held no
  well-formed JSON.\<close>

theorem save_load_round_trip_witness:
  "load_previous_state (fst (save_state sample_config ''Open'' ''2026-01-01 12:00:00'' WriteOk
       Malformed)) = (Inr (PStr ''Open'', PStr ''2026-01-01 12:00:00''), [])"
  using save_load_round_trip [of sample_config "''Open''" "''2026-01-01 12:00:00''" Malformed]
  by simp

text \<open>Claim C7 at a file whose status is a number, and at a file that holds no
  well-formed JSON.\<close>

theorem load_never_raises_witness:
  "(\<exists>r. fst (load_previous_state (Json (Dict [(''status'', POther True ''5'')]))) = Inr r)
   \<and> fst (load_previous_state Malformed) = Inr (PNone, PNone)"
  using load_never_raises [of "Json (Dict [(''status'', POther True ''5'')])"]
  by simp

end
